theory Spec2Isabelle
  imports Main
begin

section \<open>The Go library functions that main.go calls\<close>

text \<open>
  Go strings are byte sequences, so a string is a \<open>char list\<close>. The functions of package
  \<open>strings\<close> that main.go uses are written out for the arguments it passes: the
  separators are the one-byte strings tab, newline and comma.
\<close>

fun Split :: "char \<Rightarrow> string \<Rightarrow> string list" where
  "Split sep [] = [[]]"
| "Split sep (c # cs) =
     (if c = sep then [] # Split sep cs
      else (case Split sep cs of [] \<Rightarrow> [[c]] | f # fs \<Rightarrow> (c # f) # fs))"

fun Join :: "string list \<Rightarrow> char \<Rightarrow> string" where
  "Join [] sep = []"
| "Join [e] sep = e"
| "Join (e # e' # es) sep = e @ sep # Join (e' # es) sep"

definition HasPrefix :: "string \<Rightarrow> string \<Rightarrow> bool" where
  "HasPrefix s p = (length p \<le> length s \<and> take (length p) s = p)"

fun Contains :: "string \<Rightarrow> string \<Rightarrow> bool" where
  "Contains [] substr = (substr = [])"
| "Contains (c # cs) substr = (HasPrefix (c # cs) substr \<or> Contains cs substr)"

text \<open>
  A \<open>time.Time\<close> is an instant: nanoseconds since the Unix epoch. \<open>t.After(u)\<close> compares
  instants. \<open>t.AddDate(years, months, days)\<close> is calendar arithmetic in the location of
  \<open>t\<close> (for \<open>time.Now()\<close> the local zone of the process); it is a parameter
  \<open>AddDate\<close> of every function that calls it, applied as \<open>AddDate t years months days\<close>.
\<close>

type_synonym time = int

definition After :: "time \<Rightarrow> time \<Rightarrow> bool" where
  "After t u = (u < t)"

text \<open>An \<open>error\<close> is represented by the text that \<open>%v\<close> prints for it.\<close>

type_synonym error = string

section \<open>Data model\<close>

record CheckResult =
  Status :: string
  Timestamp :: time
  ActualResult :: "string list"
  Server :: string

record DNSCheck =
  Domain :: string
  Type :: string
  Expected :: string
  Interval :: int
  Status :: string
  LastCheck :: time
  History :: "CheckResult list"

record GlobalConfig =
  DNSServer :: string
  SecondaryDNSServer :: string
  DefaultInterval :: int
  LogDir :: string
  Port :: string

record Config =
  Global :: GlobalConfig
  Checks :: "DNSCheck list"

text \<open>
  What \<open>*net.Resolver\<close> answers to each lookup of one evaluation: the Go pair
  \<open>(value, err)\<close> is \<open>Inr value\<close> when \<open>err\<close> is nil and \<open>Inl err\<close> otherwise.
  \<open>LookupIP\<close> takes the network and the host.
\<close>

datatype NS = NS (ns_Host: string)

datatype MX = MX (mx_Host: string) (mx_Pref: nat)

record 'ip Resolver =
  LookupIP :: "string \<Rightarrow> string \<Rightarrow> error + 'ip list"
  LookupCNAME :: "string \<Rightarrow> error + string"
  LookupNS :: "string \<Rightarrow> error + NS list"
  LookupTXT :: "string \<Rightarrow> error + string list"
  LookupMX :: "string \<Rightarrow> error + MX list"

section \<open>performDNSCheck\<close>

text \<open>
  The final loop of performDNSCheck: the first record that contains the expected value
  (both lower-cased) decides PASS; FAIL when the loop ends.
\<close>

fun matchRecords :: "(string \<Rightarrow> string) \<Rightarrow> DNSCheck \<Rightarrow> string list \<Rightarrow> string list \<Rightarrow> string \<times> string list" where
  "matchRecords ToLower check records [] =
     (Domain check @ ''-'' @ Type check @ ''-FAIL'', records)"
| "matchRecords ToLower check records (record # rest) =
     (if Contains (ToLower record) (ToLower (Expected check))
      then (Domain check @ ''-'' @ Type check @ ''-PASS'', records)
      else matchRecords ToLower check records rest)"

definition lookupError :: "DNSCheck \<Rightarrow> error \<Rightarrow> string \<times> string list" where
  "lookupError check err =
     (Domain check @ ''-'' @ Type check @ ''-ERROR-'' @ err, [])"

text \<open>
  \<open>strings.ToLower\<close> and \<open>net.IP.String\<close> are parameters. The switch on the record type
  is the chain of comparisons in the order of the source.
\<close>

definition performDNSCheck ::
  "(string \<Rightarrow> string) \<Rightarrow> ('ip \<Rightarrow> string) \<Rightarrow> DNSCheck \<Rightarrow> 'ip Resolver \<Rightarrow> string \<times> string list" where
  "performDNSCheck ToLower IP_String check resolver =
     (if Type check = ''A'' then
        (case LookupIP resolver ''ip4'' (Domain check) of
           Inl err \<Rightarrow> lookupError check err
         | Inr ips \<Rightarrow> (let records = [] @ map IP_String ips
                       in matchRecords ToLower check records records))
      else if Type check = ''CNAME'' then
        (case LookupCNAME resolver (Domain check) of
           Inl err \<Rightarrow> lookupError check err
         | Inr cname \<Rightarrow> (let records = [] @ [cname]
                         in matchRecords ToLower check records records))
      else if Type check = ''NS'' then
        (case LookupNS resolver (Domain check) of
           Inl err \<Rightarrow> lookupError check err
         | Inr ns \<Rightarrow> (let records = [] @ map ns_Host ns
                      in matchRecords ToLower check records records))
      else if Type check = ''TXT'' then
        (case LookupTXT resolver (Domain check) of
           Inl err \<Rightarrow> lookupError check err
         | Inr txtRecords \<Rightarrow> (let records = [] @ txtRecords
                              in matchRecords ToLower check records records))
      else if Type check = ''MX'' then
        (case LookupMX resolver (Domain check) of
           Inl err \<Rightarrow> lookupError check err
         | Inr mxRecords \<Rightarrow> (let records = [] @ map mx_Host mxRecords
                             in matchRecords ToLower check records records))
      else (Domain check @ ''-'' @ Type check @ ''-UNSUPPORTED'', []))"

section \<open>updateStatus\<close>

text \<open>
  \<open>&c.Checks[index]\<close> panics when the index is out of range. \<open>now\<close> is the value of
  \<open>time.Now()\<close> read inside the call. The locks do not change what a call computes; the
  order in which the call takes them is \<open>updateStatus_events\<close> below. The \<open>go\<close> statement
  at the end of the call is \<open>updateStatus_go\<close> below.
\<close>

datatype panic = IndexOutOfRange

definition updateStatus ::
  "(time \<Rightarrow> int \<Rightarrow> int \<Rightarrow> int \<Rightarrow> time) \<Rightarrow> time \<Rightarrow> Config \<Rightarrow> int \<Rightarrow> CheckResult \<Rightarrow> panic + Config" where
  "updateStatus AddDate now c index result =
     (if index < 0 \<or> int (length (Checks c)) \<le> index then Inl IndexOutOfRange
      else
        let check = Checks c ! nat index;
            check = check\<lparr>DNSCheck.Status := CheckResult.Status result\<rparr>;
            check = check\<lparr>LastCheck := Timestamp result\<rparr>;
            check = check\<lparr>History := History check @ [result]\<rparr>;
            cutoff = AddDate now 0 0 (- 30);
            newHistory = filter (\<lambda>hist. After (Timestamp hist) cutoff) (History check);
            check = check\<lparr>History := newHistory\<rparr>
        in Inr (c\<lparr>Checks := (Checks c)[nat index := check]\<rparr>))"

section \<open>saveCheckToLog and loadHistoryFromLog\<close>

text \<open>
  The log directory is a map from file names to file contents. \<open>io_fault\<close> says which
  system call of one \<open>saveCheckToLog\<close> fails, if any; \<open>save_outcome\<close> names the branch
  taken (each failing branch only prints a message). \<open>time.Format\<close> with the RFC 3339 layout
  and \<open>filepath.Join\<close> are parameters.
\<close>

abbreviation tab :: char where "tab \<equiv> CHR 0x09"
abbreviation newline :: char where "newline \<equiv> CHR 0x0A"
abbreviation comma :: char where "comma \<equiv> CHR '',''"

type_synonym files = "string \<rightharpoonup> string"

datatype io_fault = NoFault | MkdirAllFails | OpenFileFails | WriteStringFails

datatype save_outcome =
  ErrorCreatingLogDirectory | ErrorOpeningLogFile | NoHistoryEntries | ErrorWritingLogFile | EntryWritten

definition OpenFile_append_create :: "files \<Rightarrow> string \<Rightarrow> files" where
  "OpenFile_append_create fs filename =
     (case fs filename of None \<Rightarrow> fs(filename \<mapsto> []) | Some data \<Rightarrow> fs)"

definition WriteString :: "files \<Rightarrow> string \<Rightarrow> string \<Rightarrow> files" where
  "WriteString fs filename s =
     (case fs filename of None \<Rightarrow> fs(filename \<mapsto> s) | Some data \<Rightarrow> fs(filename \<mapsto> data @ s))"

definition logEntry :: "(time \<Rightarrow> string) \<Rightarrow> CheckResult \<Rightarrow> string" where
  "logEntry Format_RFC3339 result =
     Format_RFC3339 (Timestamp result) @ [tab] @ CheckResult.Status result @ [tab] @
     Server result @ [tab] @ Join (ActualResult result) comma @ [newline]"

definition saveCheckToLog ::
  "(time \<Rightarrow> string) \<Rightarrow> (string \<Rightarrow> string \<Rightarrow> string) \<Rightarrow> io_fault \<Rightarrow>
   DNSCheck \<Rightarrow> string \<Rightarrow> files \<Rightarrow> save_outcome \<times> files" where
  "saveCheckToLog Format_RFC3339 filepath_Join fault check logDir fs =
     (let filename = filepath_Join logDir (Domain check @ ''-'' @ Type check @ ''.log'') in
      if fault = MkdirAllFails then (ErrorCreatingLogDirectory, fs)
      else if fault = OpenFileFails then (ErrorOpeningLogFile, fs)
      else
        let fs = OpenFile_append_create fs filename in
        if length (History check) = 0 then (NoHistoryEntries, fs)
        else
          let result = History check ! (length (History check) - 1) in
          if fault = WriteStringFails then (ErrorWritingLogFile, fs)
          else (EntryWritten, WriteString fs filename (logEntry Format_RFC3339 result)))"




text \<open>
  The loop of loadHistoryFromLog over the lines of the file. \<open>time.Parse\<close> with the
  RFC 3339 layout is a parameter: \<open>None\<close> when it returns an error.
\<close>

fun loadLines ::
  "(string \<Rightarrow> time option) \<Rightarrow> time \<Rightarrow> CheckResult list \<Rightarrow> string list \<Rightarrow> CheckResult list" where
  "loadLines Parse_RFC3339 cutoff history [] = history"
| "loadLines Parse_RFC3339 cutoff history (line # lines) =
     (if line = [] then loadLines Parse_RFC3339 cutoff history lines
      else
        let parts = Split tab line in
        if length parts < 4 then loadLines Parse_RFC3339 cutoff history lines
        else
          (case Parse_RFC3339 (parts ! 0) of
             None \<Rightarrow> loadLines Parse_RFC3339 cutoff history lines
           | Some timestamp \<Rightarrow>
               if After timestamp cutoff
               then loadLines Parse_RFC3339 cutoff
                      (history @ [\<lparr>CheckResult.Status = parts ! 1, Timestamp = timestamp,
                                   ActualResult = Split comma (parts ! 3), Server = parts ! 2\<rparr>])
                      lines
               else loadLines Parse_RFC3339 cutoff history lines))"

definition ReadFile :: "files \<Rightarrow> string \<Rightarrow> error + string" where
  "ReadFile fs name =
     (case fs name of
        None \<Rightarrow> Inl (''open '' @ name @ '': no such file or directory'')
      | Some data \<Rightarrow> Inr data)"

definition loadHistoryFromLog ::
  "(string \<Rightarrow> time option) \<Rightarrow> (time \<Rightarrow> int \<Rightarrow> int \<Rightarrow> int \<Rightarrow> time) \<Rightarrow> time \<Rightarrow>
   DNSCheck \<Rightarrow> string \<Rightarrow> files \<Rightarrow> error + DNSCheck" where
  "loadHistoryFromLog Parse_RFC3339 AddDate now check logFile fs =
     (case ReadFile fs logFile of
        Inl err \<Rightarrow> Inl (''error reading history file '' @ logFile @ '': '' @ err)
      | Inr data \<Rightarrow>
          let lines = Split newline data;
              cutoff = AddDate now 0 0 (- 30)
          in Inr (check\<lparr>History := loadLines Parse_RFC3339 cutoff (History check) lines\<rparr>))"

section \<open>One iteration of a worker of monitorDNS\<close>

text \<open>
  \<open>secondaryResolver\<close> is nil unless a secondary server is configured. \<open>now\<close> is read
  once at the start of the iteration; \<open>now1\<close> and \<open>now2\<close> are the clock readings inside
  the two calls of updateStatus.
\<close>

definition monitorDNS_secondaryResolver :: "Config \<Rightarrow> 'r \<Rightarrow> 'r option" where
  "monitorDNS_secondaryResolver config r =
     (if SecondaryDNSServer (Global config) \<noteq> [] then Some r else None)"

definition monitorDNS_iteration ::
  "(string \<Rightarrow> string) \<Rightarrow> ('ip \<Rightarrow> string) \<Rightarrow> (time \<Rightarrow> int \<Rightarrow> int \<Rightarrow> int \<Rightarrow> time) \<Rightarrow>
   'ip Resolver \<Rightarrow> 'ip Resolver option \<Rightarrow>
   time \<Rightarrow> time \<Rightarrow> time \<Rightarrow> Config \<Rightarrow> int \<Rightarrow> panic + Config" where
  "monitorDNS_iteration ToLower IP_String AddDate primaryResolver secondaryResolver
     now now1 now2 config i =
     (if i < 0 \<or> int (length (Checks config)) \<le> i then Inl IndexOutOfRange
      else
        let (status, results) =
              performDNSCheck ToLower IP_String (Checks config ! nat i) primaryResolver
        in
        (case updateStatus AddDate now1 config i
                \<lparr>CheckResult.Status = status, Timestamp = now, ActualResult = results,
                 Server = DNSServer (Global config)\<rparr> of
           Inl p \<Rightarrow> Inl p
         | Inr config \<Rightarrow>
             (case secondaryResolver of
                None \<Rightarrow> Inr config
              | Some resolver \<Rightarrow>
                  let (status, results) =
                        performDNSCheck ToLower IP_String (Checks config ! nat i) resolver
                  in updateStatus AddDate now2 config i
                       \<lparr>CheckResult.Status = status, Timestamp = now, ActualResult = results,
                        Server = SecondaryDNSServer (Global config)\<rparr>)))"

section \<open>Rehydration of one check in loadConfig\<close>

text \<open>
  The body of the loop of loadConfig for one check, after the YAML has been read and the
  global defaults are set: the check starts PENDING with an empty history and, when its log
  file exists, loadHistoryFromLog fills the history. An error of loadHistoryFromLog is
  logged and the check stays as it is.
\<close>

definition loadConfig_check ::
  "(string \<Rightarrow> time option) \<Rightarrow> (string \<Rightarrow> string \<Rightarrow> string) \<Rightarrow>
   (time \<Rightarrow> int \<Rightarrow> int \<Rightarrow> int \<Rightarrow> time) \<Rightarrow> time \<Rightarrow>
   GlobalConfig \<Rightarrow> DNSCheck \<Rightarrow> files \<Rightarrow> DNSCheck" where
  "loadConfig_check Parse_RFC3339 filepath_Join AddDate now global check fs =
     (let check = (if Interval check = 0 then check\<lparr>Interval := DefaultInterval global\<rparr> else check);
          check = check\<lparr>DNSCheck.Status := ''PENDING''\<rparr>;
          check = check\<lparr>History := []\<rparr>;
          logFile = filepath_Join (LogDir global) (Domain check @ ''-'' @ Type check @ ''.log'')
      in if fs logFile \<noteq> None then
           (case loadHistoryFromLog Parse_RFC3339 AddDate now check logFile fs of
              Inl err \<Rightarrow> check
            | Inr check' \<Rightarrow> check')
         else check)"

section \<open>Reference instances of the library parameters\<close>

text \<open>
  Executable instances of the library parameters, used to evaluate the model on concrete
  inputs: lower-casing of ASCII letters, the dotted form of an IPv4 address, joining a
  clean directory name and a file name, and RFC 3339 for the years 0000 to 9999 (the
  civil calendar from a day count and back).
\<close>

definition ToLower_ASCII :: "string \<Rightarrow> string" where
  "ToLower_ASCII s =
     map (\<lambda>c. case map_of (zip ''ABCDEFGHIJKLMNOPQRSTUVWXYZ'' ''abcdefghijklmnopqrstuvwxyz'') c of
                 None \<Rightarrow> c | Some l \<Rightarrow> l) s"

definition digit :: "int \<Rightarrow> char" where
  "digit n = (if 0 \<le> n \<and> n < 10 then ''0123456789'' ! nat n else CHR ''?'')"

fun itoa :: "nat \<Rightarrow> string" where
  "itoa n = (if n < 10 then [digit (int n)] else itoa (n div 10) @ [digit (int (n mod 10))])"

definition IPv4_String :: "nat list \<Rightarrow> string" where
  "IPv4_String ip = Join (map itoa ip) (CHR ''.'')"

definition filepath_Join_clean :: "string \<Rightarrow> string \<Rightarrow> string" where
  "filepath_Join_clean dir name = dir @ ''/'' @ name"

definition civil_from_days :: "int \<Rightarrow> int \<times> int \<times> int" where
  "civil_from_days z =
     (let z = z + 719468;
          era = z div 146097;
          doe = z mod 146097;
          c = min 3 (doe div 36524);
          r1 = doe - 36524 * c;
          q = r1 div 1461;
          r2 = r1 mod 1461;
          a = min 3 (r2 div 365);
          doy = r2 - 365 * a;
          mp = (5 * doy + 2) div 153;
          d = doy - (153 * mp + 2) div 5 + 1;
          m = (if mp < 10 then mp + 3 else mp - 9);
          y = 400 * era + 100 * c + 4 * q + a + (if m \<le> 2 then 1 else 0)
      in (y, m, d))"

definition days_from_civil :: "int \<Rightarrow> int \<Rightarrow> int \<Rightarrow> int" where
  "days_from_civil y m d =
     (let y = (if m \<le> 2 then y - 1 else y);
          era = y div 400;
          yoe = y - era * 400;
          doy = (153 * (if m > 2 then m - 3 else m + 9) + 2) div 5 + d - 1;
          doe = yoe * 365 + yoe div 4 - yoe div 100 + doy
      in era * 146097 + doe - 719468)"

definition days_in_month :: "int \<Rightarrow> int \<Rightarrow> int" where
  "days_in_month y m =
     (if m = 2 then (if y mod 4 = 0 \<and> (y mod 100 \<noteq> 0 \<or> y mod 400 = 0) then 29 else 28)
      else if m = 4 \<or> m = 6 \<or> m = 9 \<or> m = 11 then 30 else 31)"


text \<open>
  A location with one zone transition: the offset from UTC in seconds before and from the
  instant \<open>transition\<close> (in seconds since the epoch). \<open>NewYork2026\<close> is America/New_York
  around the end of daylight saving time on 1 November 2026 at 06:00 UTC. \<open>Date_unix\<close>
  is the zone adjustment at the end of \<open>time.Date\<close>: it looks up the offset at the
  wall-clock reading taken as UTC and again at the instant corrected by that offset.
  \<open>AddDate_in\<close> is \<open>time.Time.AddDate\<close>: the date and clock of \<open>t\<close> in the location,
  the months normalised, the days added to the day count, and the result read in the
  location again.
\<close>

record location =
  offset_before :: int
  transition :: int
  offset_after :: int

definition UTC :: location where
  "UTC = \<lparr>offset_before = 0, transition = 0, offset_after = 0\<rparr>"

definition NewYork2026 :: location where
  "NewYork2026 = \<lparr>offset_before = - 14400, transition = 1793512800, offset_after = - 18000\<rparr>"

definition zone_offset :: "location \<Rightarrow> int \<Rightarrow> int" where
  "zone_offset loc unix = (if unix < transition loc then offset_before loc else offset_after loc)"

definition Date_unix :: "location \<Rightarrow> int \<Rightarrow> int" where
  "Date_unix loc unix =
     (let offset = zone_offset loc unix
      in if offset \<noteq> 0 then unix - zone_offset loc (unix - offset) else unix)"

definition AddDate_in :: "location \<Rightarrow> time \<Rightarrow> int \<Rightarrow> int \<Rightarrow> int \<Rightarrow> time" where
  "AddDate_in loc t years months days =
     (let unix = t div 1000000000;
          nsec = t mod 1000000000;
          local = unix + zone_offset loc unix;
          (year, month, day) = civil_from_days (local div 86400);
          clock = local mod 86400;
          m = month + months - 1;
          year = year + years + m div 12;
          month = m mod 12 + 1;
          d = days_from_civil year month 1 + (day + days - 1)
      in Date_unix loc (d * 86400 + clock) * 1000000000 + nsec)"

definition pad2 :: "int \<Rightarrow> string" where
  "pad2 n = [digit (n div 10), digit (n mod 10)]"

definition pad4 :: "int \<Rightarrow> string" where
  "pad4 n = [digit (n div 1000), digit (n div 100 mod 10), digit (n div 10 mod 10), digit (n mod 10)]"

definition format_zone :: "int \<Rightarrow> string" where
  "format_zone offset =
     (if offset = 0 then ''Z''
      else
        let zone = (if offset < 0 then - ((- offset) div 60) else offset div 60) in
        if zone < 0 then ''-'' @ pad2 ((- zone) div 60) @ '':'' @ pad2 ((- zone) mod 60)
        else ''+'' @ pad2 (zone div 60) @ '':'' @ pad2 (zone mod 60))"

definition Format_RFC3339_in :: "location \<Rightarrow> time \<Rightarrow> string" where
  "Format_RFC3339_in loc t =
     (let unix = t div 1000000000;
          offset = zone_offset loc unix;
          local = unix + offset;
          days = local div 86400;
          rem = local mod 86400;
          (y, m, d) = civil_from_days days
      in pad4 y @ ''-'' @ pad2 m @ ''-'' @ pad2 d @ ''T'' @
         pad2 (rem div 3600) @ '':'' @ pad2 (rem mod 3600 div 60) @ '':'' @ pad2 (rem mod 60) @
         format_zone offset)"

definition Format_RFC3339_UTC :: "time \<Rightarrow> string" where
  "Format_RFC3339_UTC t = Format_RFC3339_in UTC t"

definition digit_val :: "char \<Rightarrow> int option" where
  "digit_val c = map_of (zip ''0123456789'' [0, 1, 2, 3, 4, 5, 6, 7, 8, 9]) c"

fun number_from :: "int \<Rightarrow> string \<Rightarrow> int option" where
  "number_from acc [] = Some acc"
| "number_from acc (c # cs) =
     (case digit_val c of None \<Rightarrow> None | Some v \<Rightarrow> number_from (acc * 10 + v) cs)"

definition number :: "string \<Rightarrow> int option" where
  "number s = (if s = [] then None else number_from 0 s)"

definition parse_zone :: "string \<Rightarrow> int option" where
  "parse_zone z =
     (if z = ''Z'' then Some 0
      else if length z = 6 \<and> (z ! 0 = CHR ''+'' \<or> z ! 0 = CHR ''-'') \<and> z ! 3 = CHR '':'' then
        (case (number (take 2 (drop 1 z)), number (take 2 (drop 4 z))) of
           (Some hh, Some mm) \<Rightarrow>
             if hh < 24 \<and> mm < 60
             then Some ((if z ! 0 = CHR ''-'' then - 1 else 1) * (hh * 3600 + mm * 60))
             else None
         | _ \<Rightarrow> None)
      else None)"

definition parse_fraction_zone :: "string \<Rightarrow> (int \<times> int) option" where
  "parse_fraction_zone s =
     (if s \<noteq> [] \<and> hd s = CHR ''.'' then
        (let ds = takeWhile (\<lambda>c. digit_val c \<noteq> None) (tl s);
             z = dropWhile (\<lambda>c. digit_val c \<noteq> None) (tl s)
         in case (number (take 9 (ds @ ''000000000'')), parse_zone z) of
              (Some nanos, Some offset) \<Rightarrow> if ds = [] then None else Some (nanos, offset)
            | _ \<Rightarrow> None)
      else (case parse_zone s of None \<Rightarrow> None | Some offset \<Rightarrow> Some (0, offset)))"

definition Parse_RFC3339_ref :: "string \<Rightarrow> time option" where
  "Parse_RFC3339_ref s =
     (if length s < 20 then None
      else if s ! 4 \<noteq> CHR ''-'' \<or> s ! 7 \<noteq> CHR ''-'' \<or> s ! 10 \<noteq> CHR ''T'' \<or>
              s ! 13 \<noteq> CHR '':'' \<or> s ! 16 \<noteq> CHR '':'' then None
      else
        (case (number (take 4 s), number (take 2 (drop 5 s)), number (take 2 (drop 8 s))) of
           (Some y, Some mo, Some d) \<Rightarrow>
             (case (number (take 2 (drop 11 s)), number (take 2 (drop 14 s)),
                    number (take 2 (drop 17 s)), parse_fraction_zone (drop 19 s)) of
                (Some h, Some mi, Some sec, Some (nanos, offset)) \<Rightarrow>
                  if mo < 1 \<or> 12 < mo \<or> d < 1 \<or> days_in_month y mo < d \<or>
                     23 < h \<or> 59 < mi \<or> 59 < sec then None
                  else Some ((days_from_civil y mo d * 86400 + h * 3600 + mi * 60 + sec - offset)
                               * 1000000000 + nanos)
              | _ \<Rightarrow> None)
         | _ \<Rightarrow> None))"


section \<open>Example inputs\<close>

text \<open>
  The zero \<open>time.Time\<close> is 1 January of year 1, UTC. The example resolver answers the
  examples of the specification and fails every other lookup.
\<close>

definition zeroTime :: time where
  "zeroTime = - 62135596800000000000"

definition noSuchHost :: "string \<Rightarrow> error" where
  "noSuchHost host = ''lookup '' @ host @ '': no such host''"

definition exampleResolver :: "(nat list) Resolver" where
  "exampleResolver =
     \<lparr>LookupIP = (\<lambda>network host.
         if host = ''example.org'' then Inr [[93, 184, 216, 34]] else Inl (noSuchHost host)),
      LookupCNAME = (\<lambda>host. Inl (noSuchHost host)),
      LookupNS = (\<lambda>host.
         if host = ''example.com'' then Inr [NS ''ns1.Example.com.'', NS ''ns2.example.com.'']
         else Inl (noSuchHost host)),
      LookupTXT = (\<lambda>host.
         if host = ''x.test'' then Inr [''nothing-relevant''] else Inl (noSuchHost host)),
      LookupMX = (\<lambda>host. Inl (noSuchHost host))\<rparr>"

definition exampleCheck :: "string \<Rightarrow> string \<Rightarrow> string \<Rightarrow> DNSCheck" where
  "exampleCheck domain type expected =
     \<lparr>Domain = domain, Type = type, Expected = expected, Interval = 300000000000,
      Status = ''PENDING'', LastCheck = zeroTime, History = []\<rparr>"

definition failingResolver :: "(nat list) Resolver" where
  "failingResolver =
     \<lparr>LookupIP = (\<lambda>network host. Inl (noSuchHost host)),
      LookupCNAME = (\<lambda>host. Inl (noSuchHost host)),
      LookupNS = (\<lambda>host. Inl (noSuchHost host)),
      LookupTXT = (\<lambda>host. Inl (noSuchHost host)),
      LookupMX = (\<lambda>host. Inl (noSuchHost host))\<rparr>"

definition exampleGlobal :: "string \<Rightarrow> string \<Rightarrow> GlobalConfig" where
  "exampleGlobal primary secondary =
     \<lparr>DNSServer = primary, SecondaryDNSServer = secondary, DefaultInterval = 300000000000,
      LogDir = ''logs'', Port = '':8080''\<rparr>"

definition exampleConfig :: "string \<Rightarrow> string \<Rightarrow> Config" where
  "exampleConfig primary secondary =
     \<lparr>Global = exampleGlobal primary secondary,
      Checks = [exampleCheck ''example.com'' ''NS'' ''ns1.example.com'',
                exampleCheck ''example.org'' ''A'' ''93.184.216.34'']\<rparr>"

text \<open>2026-11-02T10:30:00.123456789Z, and the instants one and three seconds later.\<close>

definition exampleNow :: time where
  "exampleNow = 1793615400123456789"

definition exampleNow1 :: time where
  "exampleNow1 = 1793615401123456789"

definition exampleNow2 :: time where
  "exampleNow2 = 1793615403123456789"

text \<open>
  A log file with a line from 1 September 2026, a line with one field, a line whose first
  field is not a timestamp, and the line of a failed lookup at 2026-11-02T10:25:00Z.
\<close>

definition exampleLog :: string where
  "exampleLog =
     ''2026-09-01T08:00:00Z'' @ [tab] @ ''example.org-A-PASS'' @ [tab] @ ''8.8.8.8'' @ [tab] @
       ''93.184.216.34'' @ [newline] @
     ''not a log line'' @ [newline] @
     ''yesterday'' @ [tab] @ ''example.org-A-PASS'' @ [tab] @ ''8.8.8.8'' @ [tab] @
       ''93.184.216.34'' @ [newline] @
     ''2026-11-02T10:25:00Z'' @ [tab] @ ''example.org-A-ERROR-lookup example.org: no such host'' @
       [tab] @ ''8.8.4.4'' @ [tab] @ [newline]"

definition exampleFiles :: files where
  "exampleFiles = [''logs/example.org-A.log'' \<mapsto> exampleLog]"


definition exampleErrorResult :: CheckResult where
  "exampleErrorResult =
     \<lparr>CheckResult.Status = ''example.org-A-ERROR-lookup example.org: no such host'',
      Timestamp = exampleNow, ActualResult = [], Server = ''8.8.4.4''\<rparr>"


text \<open>
  A result dated 40 days after \<open>exampleNow\<close>, and one dated 30 days and 30 minutes
  before it.
\<close>

definition exampleFutureResult :: CheckResult where
  "exampleFutureResult =
     \<lparr>CheckResult.Status = ''example.org-A-PASS'', Timestamp = exampleNow + 40 * 86400 * 1000000000,
      ActualResult = [''93.184.216.34''], Server = ''8.8.8.8''\<rparr>"

definition exampleLateResult :: CheckResult where
  "exampleLateResult =
     \<lparr>CheckResult.Status = ''example.org-A-PASS'',
      Timestamp = exampleNow - (30 * 86400 + 1800) * 1000000000,
      ActualResult = [''93.184.216.34''], Server = ''8.8.8.8''\<rparr>"




section \<open>Facts about the string functions\<close>

lemma HasPrefix_iff: "HasPrefix s p \<longleftrightarrow> (\<exists>q. s = p @ q)"
  unfolding HasPrefix_def
  by (metis append_eq_conv_conj append_take_drop_id le_add1 length_append)

text \<open>\<open>Contains\<close> is the substring relation on byte strings.\<close>

lemma Contains_iff: "Contains s substr \<longleftrightarrow> (\<exists>p q. s = p @ substr @ q)"
proof (induction s)
  case Nil
  then show ?case by auto
next
  case (Cons c cs)
  show ?case
  proof
    assume "Contains (c # cs) substr"
    then consider "HasPrefix (c # cs) substr" | "Contains cs substr" by auto
    then show "\<exists>p q. c # cs = p @ substr @ q"
    proof cases
      case 1
      then obtain q where "c # cs = substr @ q" by (auto simp: HasPrefix_iff)
      then have "c # cs = [] @ substr @ q" by simp
      then show ?thesis by blast
    next
      case 2
      then obtain p q where "cs = p @ substr @ q" using Cons.IH by auto
      then have "c # cs = (c # p) @ substr @ q" by simp
      then show ?thesis by blast
    qed
  next
    assume "\<exists>p q. c # cs = p @ substr @ q"
    then obtain p q where pq: "c # cs = p @ substr @ q" by auto
    show "Contains (c # cs) substr"
    proof (cases "p = []")
      case True
      then have "HasPrefix (c # cs) substr" using pq by (auto simp: HasPrefix_iff)
      then show ?thesis by simp
    next
      case False
      then have "cs = tl p @ substr @ q" using pq by (cases p) auto
      then have "Contains cs substr" using Cons.IH by blast
      then show ?thesis by simp
    qed
  qed
qed

lemma Split_not_Nil: "Split sep s \<noteq> []"
  by (induction s) (auto split: list.splits)

lemma Split_no_sep: "sep \<notin> set s \<Longrightarrow> Split sep s = [s]"
  by (induction s) auto

lemma Split_append_sep: "Split sep (a @ sep # b) = Split sep a @ Split sep b"
proof (induction a)
  case Nil
  show ?case by simp
next
  case (Cons c cs)
  obtain f fs where "Split sep cs = f # fs"
    using Split_not_Nil[of sep cs] by (cases "Split sep cs") auto
  then show ?case using Cons.IH by simp
qed




lemma Join_no_char:
  assumes "\<forall>e\<in>set es. c \<notin> set e" "c \<noteq> sep"
  shows "c \<notin> set (Join es sep)"
  using assms by (induction es sep rule: Join.induct) auto

lemma Split_logEntry_lines:
  assumes "newline \<notin> set line"
  shows "Split newline (line @ [newline]) = [line, []]"
  using Split_append_sep[of newline line "[]"] assms by (simp add: Split_no_sep)

lemma Split_logEntry_fields:
  assumes "tab \<notin> set a" "tab \<notin> set b" "tab \<notin> set c" "tab \<notin> set d"
  shows "Split tab (a @ [tab] @ b @ [tab] @ c @ [tab] @ d) = [a, b, c, d]"
  using assms by (simp add: Split_append_sep Split_no_sep)

section \<open>Facts about the calendar and the RFC 3339 layout\<close>

text \<open>
  The civil date of a day count is a date of the calendar and \<open>days_from_civil\<close> maps it
  back to the day count; a timestamp of the years 1970 to 9999, formatted in a location with
  whole-minute offsets, is parsed back to the same instant cut to the second.
\<close>

lemma divmod_facts:
  fixes n :: int
  assumes "0 < m"
  shows "n = m * (n div m) + n mod m" "0 \<le> n mod m" "n mod m < m"
  using assms by simp_all

























lemma example_cutoff:
  "AddDate_in UTC exampleNow 0 0 (- 30) = 1791023400123456789"
  "AddDate_in UTC exampleNow1 0 0 (- 30) = 1791023401123456789"
  "AddDate_in UTC exampleNow2 0 0 (- 30) = 1791023403123456789"
  "AddDate_in UTC 1793615400123456789 0 0 (- 30) = 1791023400123456789"
  "AddDate_in UTC 1793615401123456789 0 0 (- 30) = 1791023401123456789"
  "AddDate_in UTC 1793615403123456789 0 0 (- 30) = 1791023403123456789"
  by code_simp+

lemma example_cutoff_NewYork:
  "AddDate_in NewYork2026 exampleNow 0 0 (- 30) = 1791019800123456789"
  "AddDate_in NewYork2026 1793615400123456789 0 0 (- 30) = 1791019800123456789"
  by code_simp+

section \<open>Evaluations of the examples\<close>

lemma PASS_example:
  "performDNSCheck ToLower_ASCII IPv4_String (exampleCheck ''example.org'' ''A'' ''93.184.216.34'')
     exampleResolver = (''example.org-A-PASS'', [''93.184.216.34''])"
  by code_simp

lemma ERROR_example:
  "performDNSCheck ToLower_ASCII IPv4_String (exampleCheck ''example.org'' ''A'' ''93.184.216.34'')
     failingResolver = (''example.org-A-ERROR-lookup example.org: no such host'', [])"
  by code_simp

lemma exampleConfig_simps:
  "Checks (exampleConfig p s) ! nat 1 = exampleCheck ''example.org'' ''A'' ''93.184.216.34''"
  "length (Checks (exampleConfig p s)) = 2"
  "Global (exampleConfig p s) = exampleGlobal p s"
  by (simp_all add: exampleConfig_def)

lemma exampleLog_lines:
  "Split newline exampleLog =
     [''2026-09-01T08:00:00Z'' @ [tab] @ ''example.org-A-PASS'' @ [tab] @ ''8.8.8.8'' @ [tab] @
        ''93.184.216.34'',
      ''not a log line'',
      ''yesterday'' @ [tab] @ ''example.org-A-PASS'' @ [tab] @ ''8.8.8.8'' @ [tab] @
        ''93.184.216.34'',
      ''2026-11-02T10:25:00Z'' @ [tab] @ ''example.org-A-ERROR-lookup example.org: no such host'' @
        [tab] @ ''8.8.4.4'' @ [tab],
      []]"
  by (simp add: exampleLog_def)

lemma example_parse:
  "Parse_RFC3339_ref ''2026-09-01T08:00:00Z'' = Some 1788249600000000000"
  "Parse_RFC3339_ref ''yesterday'' = None"
  "Parse_RFC3339_ref ''2026-11-02T10:25:00Z'' = Some 1793615100000000000"
  by code_simp+

lemma example_format:
  "Format_RFC3339_UTC exampleNow = ''2026-11-02T10:30:00Z''"
  unfolding exampleNow_def by code_simp

lemma example_parse_now:
  "Parse_RFC3339_ref ''2026-11-02T10:30:00Z'' = Some 1793615400000000000"
  by code_simp

lemma specification_examples:
  "performDNSCheck ToLower_ASCII IPv4_String (exampleCheck ''x.test'' ''TXT'' ''v=spf1'')
     exampleResolver = (''x.test-TXT-FAIL'', [''nothing-relevant''])"
  "performDNSCheck ToLower_ASCII IPv4_String (exampleCheck ''example.com'' ''NS'' ''NS1.example.COM'')
     exampleResolver = (''example.com-NS-PASS'', [''ns1.Example.com.'', ''ns2.example.com.''])"
  "performDNSCheck ToLower_ASCII IPv4_String (exampleCheck ''domain'' ''SRV'' ''x'')
     exampleResolver = (''domain-SRV-UNSUPPORTED'', [])"
  by code_simp+

lemma reference_dates:
  "Format_RFC3339_UTC 0 = ''1970-01-01T00:00:00Z''"
  "Format_RFC3339_UTC 951782399999999999 = ''2000-02-28T23:59:59Z''"
  "Format_RFC3339_UTC 951782400000000000 = ''2000-02-29T00:00:00Z''"
  "Format_RFC3339_UTC zeroTime = ''0001-01-01T00:00:00Z''"
  "Parse_RFC3339_ref ''1970-01-01T00:00:00Z'' = Some 0"
  "Parse_RFC3339_ref ''2000-02-29T00:00:00Z'' = Some 951782400000000000"
  "Parse_RFC3339_ref ''2026-11-02T11:30:00.5+01:00'' = Some 1793615400500000000"
  "Parse_RFC3339_ref ''2026-02-29T00:00:00Z'' = None"
  unfolding zeroTime_def by code_simp+


section \<open>The check evaluator\<close>

lemma matchRecords_eq:
  "matchRecords ToLower check records rs =
     (Domain check @ ''-'' @ Type check @
        (if \<exists>r\<in>set rs. Contains (ToLower r) (ToLower (Expected check)) then ''-PASS'' else ''-FAIL''),
      records)"
  by (induction rs) auto

lemma performDNSCheck_cong:
  assumes "Domain a = Domain b" "Type a = Type b" "Expected a = Expected b"
  shows "performDNSCheck ToLower IP_String a resolver = performDNSCheck ToLower IP_String b resolver"
  using assms by (simp add: performDNSCheck_def matchRecords_eq lookupError_def Let_def split: sum.splits)

text \<open>
  Claim C1. When the record type is one of A, CNAME, NS, TXT, MX and its lookup succeeds,
  performDNSCheck returns the status \<open><domain>-<type>-PASS\<close> exactly when some returned
  record value contains the expected string, both lower-cased, and \<open><domain>-<type>-FAIL\<close>
  exactly when none does; the returned record list is the list of values the lookup
  produced (the text form of each address, the canonical name, the host of each NS or MX
  record, the TXT strings).
\<close>

theorem performDNSCheck_classifies:
  assumes "(Type check = ''A'' \<and> (\<exists>ips. LookupIP resolver ''ip4'' (Domain check) = Inr ips \<and>
              values = map IP_String ips)) \<or>
           (Type check = ''CNAME'' \<and> (\<exists>cname. LookupCNAME resolver (Domain check) = Inr cname \<and>
              values = [cname])) \<or>
           (Type check = ''NS'' \<and> (\<exists>ns. LookupNS resolver (Domain check) = Inr ns \<and>
              values = map ns_Host ns)) \<or>
           (Type check = ''TXT'' \<and> LookupTXT resolver (Domain check) = Inr values) \<or>
           (Type check = ''MX'' \<and> (\<exists>mxRecords. LookupMX resolver (Domain check) = Inr mxRecords \<and>
              values = map mx_Host mxRecords))"
  shows "(fst (performDNSCheck ToLower IP_String check resolver) =
            Domain check @ ''-'' @ Type check @ ''-PASS'' \<longleftrightarrow>
          (\<exists>v\<in>set values. Contains (ToLower v) (ToLower (Expected check)))) \<and>
         (fst (performDNSCheck ToLower IP_String check resolver) =
            Domain check @ ''-'' @ Type check @ ''-FAIL'' \<longleftrightarrow>
          \<not> (\<exists>v\<in>set values. Contains (ToLower v) (ToLower (Expected check)))) \<and>
         snd (performDNSCheck ToLower IP_String check resolver) = values"
proof -
  have "performDNSCheck ToLower IP_String check resolver =
          matchRecords ToLower check values values"
    using assms by (auto simp: performDNSCheck_def Let_def)
  then show ?thesis by (simp add: matchRecords_eq)
qed

theorem performDNSCheck_classifies_witness:
  "Type (exampleCheck ''example.org'' ''A'' ''93.184.216.34'') = ''A'' \<and>
   LookupIP exampleResolver ''ip4'' (Domain (exampleCheck ''example.org'' ''A'' ''93.184.216.34'')) =
     Inr [[93, 184, 216, 34]] \<and>
   [''93.184.216.34''] = map IPv4_String [[93, 184, 216, 34]] \<and>
   performDNSCheck ToLower_ASCII IPv4_String
       (exampleCheck ''example.org'' ''A'' ''93.184.216.34'') exampleResolver =
     (''example.org-A-PASS'', [''93.184.216.34''])"
proof -
  have ip: "[''93.184.216.34''] = map IPv4_String [[93, 184, 216, 34]]"
    by code_simp
  have lk: "LookupIP exampleResolver ''ip4''
              (Domain (exampleCheck ''example.org'' ''A'' ''93.184.216.34'')) =
            Inr [[93, 184, 216, 34]]"
    by (simp add: exampleCheck_def exampleResolver_def)
  have ty: "Type (exampleCheck ''example.org'' ''A'' ''93.184.216.34'') = ''A''"
    by (simp add: exampleCheck_def)
  have m: "Contains (ToLower_ASCII ''93.184.216.34'') (ToLower_ASCII ''93.184.216.34'')"
    by code_simp
  have ex: "Expected (exampleCheck ''example.org'' ''A'' ''93.184.216.34'') = ''93.184.216.34''"
    "Domain (exampleCheck ''example.org'' ''A'' ''93.184.216.34'') = ''example.org''"
    by (simp_all add: exampleCheck_def)
  from performDNSCheck_classifies
          [of "exampleCheck ''example.org'' ''A'' ''93.184.216.34''" exampleResolver
              "[''93.184.216.34'']" IPv4_String ToLower_ASCII]
    ip lk ty m ex
  have "fst (performDNSCheck ToLower_ASCII IPv4_String
               (exampleCheck ''example.org'' ''A'' ''93.184.216.34'') exampleResolver) =
          ''example.org-A-PASS''"
    and "snd (performDNSCheck ToLower_ASCII IPv4_String
               (exampleCheck ''example.org'' ''A'' ''93.184.216.34'') exampleResolver) =
          [''93.184.216.34'']"
    by auto
  then show ?thesis using ip lk ty by (simp add: prod_eq_iff)
qed

text \<open>
  Claim C4. When the lookup of the check's record type returns an error, performDNSCheck
  returns an empty record list and the status \<open><domain>-<type>-ERROR-<error>\<close>, which contains
  \<open>-ERROR-\<close> followed by the error text and is neither the PASS nor the FAIL status.
\<close>

theorem performDNSCheck_lookup_error:
  assumes "(Type check = ''A'' \<and> LookupIP resolver ''ip4'' (Domain check) = Inl err) \<or>
           (Type check = ''CNAME'' \<and> LookupCNAME resolver (Domain check) = Inl err) \<or>
           (Type check = ''NS'' \<and> LookupNS resolver (Domain check) = Inl err) \<or>
           (Type check = ''TXT'' \<and> LookupTXT resolver (Domain check) = Inl err) \<or>
           (Type check = ''MX'' \<and> LookupMX resolver (Domain check) = Inl err)"
  shows "performDNSCheck ToLower IP_String check resolver =
           (Domain check @ ''-'' @ Type check @ ''-ERROR-'' @ err, []) \<and>
         Contains (fst (performDNSCheck ToLower IP_String check resolver)) (''-ERROR-'' @ err) \<and>
         fst (performDNSCheck ToLower IP_String check resolver) \<noteq>
           Domain check @ ''-'' @ Type check @ ''-PASS'' \<and>
         fst (performDNSCheck ToLower IP_String check resolver) \<noteq>
           Domain check @ ''-'' @ Type check @ ''-FAIL''"
proof -
  have eq: "performDNSCheck ToLower IP_String check resolver =
              (Domain check @ ''-'' @ Type check @ ''-ERROR-'' @ err, [])"
    using assms by (auto simp: performDNSCheck_def lookupError_def)
  have "Domain check @ ''-'' @ Type check @ ''-ERROR-'' @ err =
          (Domain check @ ''-'' @ Type check) @ (''-ERROR-'' @ err) @ []"
    by simp
  then have "Contains (Domain check @ ''-'' @ Type check @ ''-ERROR-'' @ err) (''-ERROR-'' @ err)"
    unfolding Contains_iff by blast
  then show ?thesis by (simp add: eq)
qed

theorem performDNSCheck_lookup_error_witness:
  "Type (exampleCheck ''nx.test'' ''A'' ''1.2.3.4'') = ''A'' \<and>
   LookupIP exampleResolver ''ip4'' (Domain (exampleCheck ''nx.test'' ''A'' ''1.2.3.4'')) =
     Inl ''lookup nx.test: no such host'' \<and>
   performDNSCheck ToLower_ASCII IPv4_String (exampleCheck ''nx.test'' ''A'' ''1.2.3.4'') exampleResolver =
     (''nx.test-A-ERROR-lookup nx.test: no such host'', [])"
  using performDNSCheck_lookup_error
          [of "exampleCheck ''nx.test'' ''A'' ''1.2.3.4''" exampleResolver
              "''lookup nx.test: no such host''" ToLower_ASCII IPv4_String]
  by (simp add: exampleCheck_def exampleResolver_def noSuchHost_def)

text \<open>
  Claim C7. When the record type is none of A, CNAME, NS, TXT, MX, performDNSCheck returns
  the status \<open><domain>-<type>-UNSUPPORTED\<close> and an empty record list, whatever the resolver
  and the other fields are; the status is neither the PASS nor the FAIL status.
\<close>

theorem performDNSCheck_unsupported:
  assumes "Type check \<notin> {''A'', ''CNAME'', ''NS'', ''TXT'', ''MX''}"
  shows "performDNSCheck ToLower IP_String check resolver =
           (Domain check @ ''-'' @ Type check @ ''-UNSUPPORTED'', []) \<and>
         fst (performDNSCheck ToLower IP_String check resolver) \<noteq>
           Domain check @ ''-'' @ Type check @ ''-PASS'' \<and>
         fst (performDNSCheck ToLower IP_String check resolver) \<noteq>
           Domain check @ ''-'' @ Type check @ ''-FAIL''"
  using assms by (simp add: performDNSCheck_def)

theorem performDNSCheck_unsupported_witness:
  "''SRV'' \<notin> {''A'', ''CNAME'', ''NS'', ''TXT'', ''MX''} \<and>
   performDNSCheck ToLower_ASCII IPv4_String (exampleCheck ''domain'' ''SRV'' ''x'') exampleResolver =
     (''domain-SRV-UNSUPPORTED'', [])"
  using performDNSCheck_unsupported
          [of "exampleCheck ''domain'' ''SRV'' ''x''" ToLower_ASCII IPv4_String exampleResolver]
  by (simp add: exampleCheck_def)

section \<open>Appending results\<close>

lemma updateStatus_Inr:
  assumes "0 \<le> index" "index < int (length (Checks c))"
  shows "updateStatus AddDate now c index result =
           Inr (c\<lparr>Checks := (Checks c)[nat index :=
                  (Checks c ! nat index)
                    \<lparr>DNSCheck.Status := CheckResult.Status result,
                     LastCheck := Timestamp result,
                     History := filter (\<lambda>hist. After (Timestamp hist) (AddDate now 0 0 (- 30)))
                                  (History (Checks c ! nat index) @ [result])\<rparr>]\<rparr>)"
  using assms by (simp add: updateStatus_def Let_def)

lemma updateStatus_check:
  assumes "0 \<le> index" "index < int (length (Checks c))"
    and "updateStatus AddDate now c index result = Inr c'"
  shows "Checks c' ! nat index =
           (Checks c ! nat index)
             \<lparr>DNSCheck.Status := CheckResult.Status result,
              LastCheck := Timestamp result,
              History := filter (\<lambda>hist. After (Timestamp hist) (AddDate now 0 0 (- 30)))
                           (History (Checks c ! nat index) @ [result])\<rparr>"
    and "length (Checks c') = length (Checks c)"
    and "Global c' = Global c"
  using assms by (auto simp: updateStatus_Inr)

lemma monitorDNS_iteration_secondary:
  assumes i: "0 \<le> i" "i < int (length (Checks config))"
    and c1: "updateStatus AddDate now1 config i
               \<lparr>CheckResult.Status = fst (performDNSCheck ToLower IP_String (Checks config ! nat i) primaryResolver),
                Timestamp = now,
                ActualResult = snd (performDNSCheck ToLower IP_String (Checks config ! nat i) primaryResolver),
                Server = DNSServer (Global config)\<rparr> = Inr c1"
  shows "monitorDNS_iteration ToLower IP_String AddDate primaryResolver (Some resolver) now now1 now2 config i =
           updateStatus AddDate now2 c1 i
             \<lparr>CheckResult.Status = fst (performDNSCheck ToLower IP_String (Checks config ! nat i) resolver),
              Timestamp = now,
              ActualResult = snd (performDNSCheck ToLower IP_String (Checks config ! nat i) resolver),
              Server = SecondaryDNSServer (Global config)\<rparr>"
proof -
  have same: "performDNSCheck ToLower IP_String (Checks c1 ! nat i) resolver =
              performDNSCheck ToLower IP_String (Checks config ! nat i) resolver"
    by (rule performDNSCheck_cong) (simp_all add: updateStatus_check(1)[OF i c1])
  have g: "Global c1 = Global config"
    by (rule updateStatus_check(3)[OF i c1])
  show ?thesis
    using i c1 by (simp add: monitorDNS_iteration_def split_beta same g)
qed

text \<open>
  Claim C5. After updateStatus has appended a result to the check at a valid index, the
  check's status is the result's status and its last-check time is the result's timestamp.
  Hence an iteration of the worker with a secondary resolver leaves the check with the
  status of the secondary evaluation and the capture time of the iteration.
\<close>

theorem updateStatus_last_write_wins:
  assumes "0 \<le> index" "index < int (length (Checks c))"
  shows "(\<exists>c'. updateStatus AddDate now c index result = Inr c' \<and>
               DNSCheck.Status (Checks c' ! nat index) = CheckResult.Status result \<and>
               LastCheck (Checks c' ! nat index) = Timestamp result) \<and>
         (\<exists>c''. monitorDNS_iteration ToLower IP_String AddDate primaryResolver (Some secondaryResolver)
                   now0 now1 now2 c index = Inr c'' \<and>
                DNSCheck.Status (Checks c'' ! nat index) =
                  fst (performDNSCheck ToLower IP_String (Checks c ! nat index) secondaryResolver) \<and>
                LastCheck (Checks c'' ! nat index) = now0)"
proof
  show "\<exists>c'. updateStatus AddDate now c index result = Inr c' \<and>
               DNSCheck.Status (Checks c' ! nat index) = CheckResult.Status result \<and>
               LastCheck (Checks c' ! nat index) = Timestamp result"
    using assms by (simp add: updateStatus_Inr)
next
  obtain c1 where c1: "updateStatus AddDate now1 c index
               \<lparr>CheckResult.Status = fst (performDNSCheck ToLower IP_String (Checks c ! nat index) primaryResolver),
                Timestamp = now0,
                ActualResult = snd (performDNSCheck ToLower IP_String (Checks c ! nat index) primaryResolver),
                Server = DNSServer (Global c)\<rparr> = Inr c1"
    using assms by (simp add: updateStatus_Inr)
  have len: "index < int (length (Checks c1))"
    using updateStatus_check(2)[OF assms c1] assms by simp
  show "\<exists>c''. monitorDNS_iteration ToLower IP_String AddDate primaryResolver (Some secondaryResolver)
                   now0 now1 now2 c index = Inr c'' \<and>
                DNSCheck.Status (Checks c'' ! nat index) =
                  fst (performDNSCheck ToLower IP_String (Checks c ! nat index) secondaryResolver) \<and>
                LastCheck (Checks c'' ! nat index) = now0"
    unfolding monitorDNS_iteration_secondary[OF assms c1]
    using assms(1) len by (simp add: updateStatus_Inr)
qed

theorem updateStatus_last_write_wins_witness:
  "(0::int) \<le> 1 \<and> 1 < int (length (Checks (exampleConfig ''8.8.8.8'' ''8.8.4.4''))) \<and>
   (\<exists>c''. monitorDNS_iteration ToLower_ASCII IPv4_String (AddDate_in UTC) exampleResolver (Some failingResolver)
             exampleNow exampleNow1 exampleNow2 (exampleConfig ''8.8.8.8'' ''8.8.4.4'') 1 = Inr c'' \<and>
          DNSCheck.Status (Checks c'' ! nat 1) = ''example.org-A-ERROR-lookup example.org: no such host'' \<and>
          LastCheck (Checks c'' ! nat 1) = exampleNow)"
proof -
  have i: "(0::int) \<le> 1" "1 < int (length (Checks (exampleConfig ''8.8.8.8'' ''8.8.4.4'')))"
    by (simp_all add: exampleConfig_simps)
  have st: "fst (performDNSCheck ToLower_ASCII IPv4_String
                   (Checks (exampleConfig ''8.8.8.8'' ''8.8.4.4'') ! nat 1) failingResolver) =
            ''example.org-A-ERROR-lookup example.org: no such host''"
    unfolding exampleConfig_simps ERROR_example by simp
  from updateStatus_last_write_wins
          [OF i, where ToLower = ToLower_ASCII
             and IP_String = IPv4_String and primaryResolver = exampleResolver
             and secondaryResolver = failingResolver and ?now0.0 = exampleNow and ?now1.0 = exampleNow1
             and ?now2.0 = exampleNow2 and AddDate = "AddDate_in UTC"]
  show ?thesis unfolding st using i by blast
qed

text \<open>
  Claim C6, amended. In an iteration of the worker of a check with a secondary server
  configured, updateStatus is called twice: the first result carries the capture time of the
  iteration and the name of the primary server, the second the same capture time and the
  name of the secondary server. The two server fields are equal exactly when the
  configuration gives both servers the same name.
\<close>

theorem monitorDNS_iteration_two_results:
  assumes i: "0 \<le> i" "i < int (length (Checks config))"
    and sec: "SecondaryDNSServer (Global config) \<noteq> []"
  shows "let r1 = \<lparr>CheckResult.Status =
                     fst (performDNSCheck ToLower IP_String (Checks config ! nat i) primaryResolver),
                   Timestamp = now,
                   ActualResult =
                     snd (performDNSCheck ToLower IP_String (Checks config ! nat i) primaryResolver),
                   Server = DNSServer (Global config)\<rparr>;
             r2 = \<lparr>CheckResult.Status =
                     fst (performDNSCheck ToLower IP_String (Checks config ! nat i) resolver),
                   Timestamp = now,
                   ActualResult =
                     snd (performDNSCheck ToLower IP_String (Checks config ! nat i) resolver),
                   Server = SecondaryDNSServer (Global config)\<rparr>
         in \<exists>c1 c2.
              updateStatus AddDate now1 config i r1 = Inr c1 \<and>
              updateStatus AddDate now2 c1 i r2 = Inr c2 \<and>
              monitorDNS_iteration ToLower IP_String AddDate primaryResolver
                (monitorDNS_secondaryResolver config resolver) now now1 now2 config i = Inr c2 \<and>
              History (Checks c2 ! nat i) =
                filter (\<lambda>hist. After (Timestamp hist) (AddDate now2 0 0 (- 30)))
                  (filter (\<lambda>hist. After (Timestamp hist) (AddDate now1 0 0 (- 30)))
                     (History (Checks config ! nat i) @ [r1]) @ [r2]) \<and>
              Timestamp r1 = now \<and> Timestamp r2 = now \<and>
              Server r1 = DNSServer (Global config) \<and>
              Server r2 = SecondaryDNSServer (Global config) \<and>
              (Server r1 = Server r2 \<longleftrightarrow> DNSServer (Global config) = SecondaryDNSServer (Global config))"
proof -
  define r1 where "r1 = \<lparr>CheckResult.Status =
                     fst (performDNSCheck ToLower IP_String (Checks config ! nat i) primaryResolver),
                   Timestamp = now,
                   ActualResult =
                     snd (performDNSCheck ToLower IP_String (Checks config ! nat i) primaryResolver),
                   Server = DNSServer (Global config)\<rparr>"
  define r2 where "r2 = \<lparr>CheckResult.Status =
                     fst (performDNSCheck ToLower IP_String (Checks config ! nat i) resolver),
                   Timestamp = now,
                   ActualResult =
                     snd (performDNSCheck ToLower IP_String (Checks config ! nat i) resolver),
                   Server = SecondaryDNSServer (Global config)\<rparr>"
  obtain c1 where c1: "updateStatus AddDate now1 config i r1 = Inr c1"
    using i by (simp add: updateStatus_Inr)
  have i1: "i < int (length (Checks c1))"
    using updateStatus_check(2)[OF i c1] i by simp
  obtain c2 where c2: "updateStatus AddDate now2 c1 i r2 = Inr c2"
    using i(1) i1 by (simp add: updateStatus_Inr)
  have it: "monitorDNS_iteration ToLower IP_String AddDate primaryResolver
              (monitorDNS_secondaryResolver config resolver) now now1 now2 config i = Inr c2"
    using monitorDNS_iteration_secondary[OF i c1[unfolded r1_def], of resolver now2] c2 sec
    by (simp add: monitorDNS_secondaryResolver_def r2_def)
  have h1: "History (Checks c1 ! nat i) =
              filter (\<lambda>hist. After (Timestamp hist) (AddDate now1 0 0 (- 30)))
                (History (Checks config ! nat i) @ [r1])"
    by (simp add: updateStatus_check(1)[OF i c1])
  have h2: "History (Checks c2 ! nat i) =
              filter (\<lambda>hist. After (Timestamp hist) (AddDate now2 0 0 (- 30)))
                (History (Checks c1 ! nat i) @ [r2])"
    by (simp add: updateStatus_check(1)[OF i(1) i1 c2])
  have "\<exists>c1 c2.
          updateStatus AddDate now1 config i r1 = Inr c1 \<and>
          updateStatus AddDate now2 c1 i r2 = Inr c2 \<and>
          monitorDNS_iteration ToLower IP_String AddDate primaryResolver
            (monitorDNS_secondaryResolver config resolver) now now1 now2 config i = Inr c2 \<and>
          History (Checks c2 ! nat i) =
            filter (\<lambda>hist. After (Timestamp hist) (AddDate now2 0 0 (- 30)))
              (filter (\<lambda>hist. After (Timestamp hist) (AddDate now1 0 0 (- 30)))
                 (History (Checks config ! nat i) @ [r1]) @ [r2])"
    using c1 c2 it h1 h2 by metis
  moreover have "Timestamp r1 = now" "Timestamp r2 = now" "Server r1 = DNSServer (Global config)"
    "Server r2 = SecondaryDNSServer (Global config)"
    by (simp_all add: r1_def r2_def)
  ultimately show ?thesis
    unfolding Let_def r1_def[symmetric] r2_def[symmetric] by simp
qed

theorem monitorDNS_iteration_two_results_witness:
  "(0::int) \<le> 1 \<and> 1 < int (length (Checks (exampleConfig ''8.8.8.8'' ''8.8.4.4''))) \<and>
   SecondaryDNSServer (Global (exampleConfig ''8.8.8.8'' ''8.8.4.4'')) \<noteq> [] \<and>
   (\<exists>c2. monitorDNS_iteration ToLower_ASCII IPv4_String (AddDate_in UTC) exampleResolver
            (monitorDNS_secondaryResolver (exampleConfig ''8.8.8.8'' ''8.8.4.4'') failingResolver)
            exampleNow exampleNow1 exampleNow2 (exampleConfig ''8.8.8.8'' ''8.8.4.4'') 1 = Inr c2 \<and>
          History (Checks c2 ! nat 1) =
            [\<lparr>CheckResult.Status = ''example.org-A-PASS'', Timestamp = exampleNow,
              ActualResult = [''93.184.216.34''], Server = ''8.8.8.8''\<rparr>,
             \<lparr>CheckResult.Status = ''example.org-A-ERROR-lookup example.org: no such host'',
              Timestamp = exampleNow, ActualResult = [], Server = ''8.8.4.4''\<rparr>])"
proof -
  have i: "(0::int) \<le> 1" "1 < int (length (Checks (exampleConfig ''8.8.8.8'' ''8.8.4.4'')))"
    by (simp_all add: exampleConfig_simps)
  have sec: "SecondaryDNSServer (Global (exampleConfig ''8.8.8.8'' ''8.8.4.4'')) \<noteq> []"
    by (simp add: exampleConfig_simps exampleGlobal_def)
  have w: "After exampleNow (AddDate_in UTC exampleNow1 0 0 (- 30))"
    "After exampleNow (AddDate_in UTC exampleNow2 0 0 (- 30))"
    by (simp_all add: After_def example_cutoff exampleNow_def exampleNow1_def exampleNow2_def)
  from monitorDNS_iteration_two_results
         [OF i sec, where ToLower = ToLower_ASCII and IP_String = IPv4_String
            and primaryResolver = exampleResolver and resolver = failingResolver
            and now = exampleNow and ?now1.0 = exampleNow1 and ?now2.0 = exampleNow2
            and AddDate = "AddDate_in UTC"]
  obtain c2 where
    "monitorDNS_iteration ToLower_ASCII IPv4_String (AddDate_in UTC) exampleResolver
       (monitorDNS_secondaryResolver (exampleConfig ''8.8.8.8'' ''8.8.4.4'') failingResolver)
       exampleNow exampleNow1 exampleNow2 (exampleConfig ''8.8.8.8'' ''8.8.4.4'') 1 = Inr c2"
    "History (Checks c2 ! nat 1) =
       [\<lparr>CheckResult.Status = ''example.org-A-PASS'', Timestamp = exampleNow,
         ActualResult = [''93.184.216.34''], Server = ''8.8.8.8''\<rparr>,
        \<lparr>CheckResult.Status = ''example.org-A-ERROR-lookup example.org: no such host'',
         Timestamp = exampleNow, ActualResult = [], Server = ''8.8.4.4''\<rparr>]"
    unfolding Let_def exampleConfig_simps PASS_example ERROR_example
    by (auto simp: w exampleGlobal_def exampleCheck_def)
  then show ?thesis using i sec by blast
qed

text \<open>
  Claim C6 as stated fails when 8.8.8.8 is configured as primary and as secondary server:
  the two results that one iteration records have the same server field.
\<close>

theorem monitorDNS_iteration_same_server:
  "monitorDNS_iteration ToLower_ASCII IPv4_String (AddDate_in UTC) exampleResolver
     (monitorDNS_secondaryResolver (exampleConfig ''8.8.8.8'' ''8.8.8.8'') exampleResolver)
     exampleNow exampleNow1 exampleNow2 (exampleConfig ''8.8.8.8'' ''8.8.8.8'') 1 =
   Inr ((exampleConfig ''8.8.8.8'' ''8.8.8.8'')
          \<lparr>Checks :=
             [exampleCheck ''example.com'' ''NS'' ''ns1.example.com'',
              (exampleCheck ''example.org'' ''A'' ''93.184.216.34'')
                \<lparr>DNSCheck.Status := ''example.org-A-PASS'',
                 LastCheck := exampleNow,
                 History :=
                   [\<lparr>CheckResult.Status = ''example.org-A-PASS'', Timestamp = exampleNow,
                     ActualResult = [''93.184.216.34''], Server = ''8.8.8.8''\<rparr>,
                    \<lparr>CheckResult.Status = ''example.org-A-PASS'', Timestamp = exampleNow,
                     ActualResult = [''93.184.216.34''], Server = ''8.8.8.8''\<rparr>]\<rparr>]\<rparr>)"
proof -
  have p: "performDNSCheck ToLower_ASCII IPv4_String ck exampleResolver =
           (''example.org-A-PASS'', [''93.184.216.34''])"
    if "Domain ck = ''example.org''" "Type ck = ''A''" "Expected ck = ''93.184.216.34''" for ck
    unfolding PASS_example[symmetric] using that
    by (intro performDNSCheck_cong) (simp_all add: exampleCheck_def)
  show ?thesis
    by (simp add: monitorDNS_iteration_def monitorDNS_secondaryResolver_def updateStatus_def
          exampleConfig_def exampleGlobal_def exampleCheck_def p Let_def
          After_def example_cutoff exampleNow_def exampleNow1_def exampleNow2_def)
qed

section \<open>Reading the log\<close>

lemma loadLines_from_empty:
  "loadLines P cutoff h ls = h @ loadLines P cutoff [] ls"
proof (induction ls arbitrary: h)
  case Nil
  show ?case by simp
next
  case (Cons l ls)
  have step: "\<And>e. loadLines P cutoff (h @ [e]) ls = h @ loadLines P cutoff [e] ls"
    using Cons.IH[of "h @ [e]" for e] Cons.IH[of "[e]" for e] by simp
  show ?case
    using Cons.IH[of h] step by (simp add: Let_def split: option.splits)
qed

lemma loadLines_append:
  "loadLines P cutoff h (xs @ ys) = loadLines P cutoff (loadLines P cutoff h xs) ys"
  by (induction xs arbitrary: h) (simp_all add: Let_def split: option.splits)

lemma loadLines_invariant:
  assumes "\<forall>e\<in>set h. After (Timestamp e) cutoff \<and> ActualResult e \<noteq> []"
  shows "\<forall>e\<in>set (loadLines P cutoff h ls). After (Timestamp e) cutoff \<and> ActualResult e \<noteq> []"
  using assms
proof (induction ls arbitrary: h)
  case Nil
  then show ?case by simp
next
  case (Cons l ls)
  show ?case
  proof (cases "l \<noteq> [] \<and> \<not> length (Split tab l) < 4 \<and>
                (\<exists>t. P (Split tab l ! 0) = Some t \<and> After t cutoff)")
    case True
    then obtain t where t: "P (Split tab l ! 0) = Some t" "After t cutoff" by blast
    let ?e = "\<lparr>CheckResult.Status = Split tab l ! 1, Timestamp = t,
               ActualResult = Split comma (Split tab l ! 3), Server = Split tab l ! 2\<rparr>"
    have "\<forall>e\<in>set (h @ [?e]). After (Timestamp e) cutoff \<and> ActualResult e \<noteq> []"
      using Cons.prems t by (simp add: Split_not_Nil)
    from Cons.IH[OF this] show ?thesis
      using True t by (simp add: Let_def)
  next
    case False
    then have "loadLines P cutoff h (l # ls) = loadLines P cutoff h ls"
      by (auto simp: Let_def split: option.splits)
    then show ?thesis using Cons.IH[OF Cons.prems] by simp
  qed
qed

lemma loadLines_window:
  "\<forall>e\<in>set (loadLines P cutoff [] ls). After (Timestamp e) cutoff"
  using loadLines_invariant[of "[]" cutoff P ls] by simp

lemma loadLines_records:
  "\<forall>e\<in>set (loadLines P cutoff [] ls). ActualResult e \<noteq> []"
  using loadLines_invariant[of "[]" cutoff P ls] by simp

lemma loadLines_skip:
  assumes "length (Split tab bad) < 4 \<or> P (Split tab bad ! 0) = None"
  shows "loadLines P cutoff h (bad # ls) = loadLines P cutoff h ls"
  using assms by (auto simp: Let_def)

lemma loadLines_cons_cong:
  assumes "\<And>h. loadLines P cutoff h xs = loadLines P cutoff h ys"
  shows "loadLines P cutoff h (l # xs) = loadLines P cutoff h (l # ys)"
  using assms by (simp add: Let_def split: option.splits)

lemma loadLines_filter:
  "loadLines P cutoff h
     (filter (\<lambda>l. \<not> (length (Split tab l) < 4 \<or> P (Split tab l ! 0) = None)) ls) =
   loadLines P cutoff h ls"
proof (induction ls arbitrary: h)
  case Nil
  show ?case by simp
next
  case (Cons l ls)
  let ?good = "\<lambda>l. \<not> (length (Split tab l) < 4 \<or> P (Split tab l ! 0) = None)"
  show ?case
  proof (cases "?good l")
    case False
    then have "filter ?good (l # ls) = filter ?good ls" by simp
    then have "loadLines P cutoff h (filter ?good (l # ls)) = loadLines P cutoff h ls"
      using Cons.IH by (simp only:)
    also have "\<dots> = loadLines P cutoff h (l # ls)"
      using loadLines_skip[where P = P and bad = l and ls = ls and h = h and cutoff = cutoff] False
      by simp
    finally show ?thesis .
  next
    case True
    then have "filter ?good (l # ls) = l # filter ?good ls" by simp
    then have "loadLines P cutoff h (filter ?good (l # ls)) = loadLines P cutoff h (l # filter ?good ls)"
      by (simp only:)
    also have "\<dots> = loadLines P cutoff h (l # ls)"
      by (rule loadLines_cons_cong) (rule Cons.IH)
    finally show ?thesis .
  qed
qed

lemma loadLines_empty_line: "loadLines P cutoff h [[]] = h"
  by simp

lemma loadLines_Split_append:
  assumes "data = [] \<or> last data = newline"
  shows "loadLines P cutoff h (Split newline (data @ rest)) =
         loadLines P cutoff (loadLines P cutoff h (Split newline data)) (Split newline rest)"
proof (cases "data = []")
  case True
  then show ?thesis by simp
next
  case False
  then have "data = butlast data @ [newline]"
    using assms by (metis append_butlast_last_id)
  then obtain d where d: "data = d @ [newline]" ..
  have "Split newline (data @ rest) = Split newline d @ Split newline rest"
    using Split_append_sep[of newline d rest] by (simp add: d)
  moreover have "Split newline data = Split newline d @ [[]]"
    using Split_append_sep[of newline d "[]"] by (simp add: d)
  ultimately show ?thesis by (simp add: loadLines_append)
qed

lemma loadHistoryFromLog_window:
  assumes "loadHistoryFromLog P AddDate now check logFile fs = Inr check'"
  shows "\<exists>new. History check' = History check @ new \<and>
           (\<forall>e\<in>set new. After (Timestamp e) (AddDate now 0 0 (- 30)) \<and> ActualResult e \<noteq> [])"
proof -
  obtain data where "History check' = loadLines P (AddDate now 0 0 (- 30)) (History check) (Split newline data)"
    using assms by (auto simp: loadHistoryFromLog_def Let_def split: sum.splits)
  then have "History check' = History check @ loadLines P (AddDate now 0 0 (- 30)) [] (Split newline data)"
    by (simp only: loadLines_from_empty[of P _ "History check"])
  then show ?thesis
    using loadLines_window loadLines_records by blast
qed

lemma loadConfig_check_window:
  "\<forall>e\<in>set (History (loadConfig_check P filepath_Join AddDate now global check fs)).
     After (Timestamp e) (AddDate now 0 0 (- 30)) \<and> ActualResult e \<noteq> []"
proof -
  define check0 where "check0 =
    (if Interval check = 0 then check\<lparr>Interval := DefaultInterval global\<rparr> else check)
      \<lparr>DNSCheck.Status := ''PENDING'', History := []\<rparr>"
  define logFile where "logFile = filepath_Join (LogDir global) (Domain check0 @ ''-'' @ Type check0 @ ''.log'')"
  have h0: "History check0 = []" by (simp add: check0_def)
  have eq: "loadConfig_check P filepath_Join AddDate now global check fs =
          (if fs logFile \<noteq> None then
             (case loadHistoryFromLog P AddDate now check0 logFile fs of Inl err \<Rightarrow> check0 | Inr check' \<Rightarrow> check')
           else check0)"
    by (cases "Interval check = 0")
       (simp_all add: loadConfig_check_def Let_def check0_def logFile_def cong: sum.case_cong)
  show ?thesis
  proof (cases "loadHistoryFromLog P AddDate now check0 logFile fs")
    case (Inl err)
    then show ?thesis by (simp add: eq h0)
  next
    case (Inr check')
    from loadHistoryFromLog_window[OF Inr] h0 show ?thesis
      by (auto simp: eq Inr h0)
  qed
qed



text \<open>
  Claim C3 as stated fails in two ways. A result dated after \<open>now\<close> is retained, so an
  entry of the history need not lie within the last 30 days. And 30 days are calendar days
  in the local zone: in New York on 2 November 2026 at 05:30, the day after the end of
  daylight saving time, the cutoff is 30 days and one hour earlier, and an entry that is
  30 days and 30 minutes old is retained.
\<close>

theorem history_window_counterexample:
  "(\<exists>c'. updateStatus (AddDate_in UTC) exampleNow1
            ((exampleConfig ''8.8.8.8'' ''8.8.4.4'')
               \<lparr>Checks := [exampleCheck ''example.org'' ''A'' ''93.184.216.34'']\<rparr>)
            0 exampleFutureResult = Inr c' \<and>
          History (Checks c' ! nat 0) = [exampleFutureResult]) \<and>
   exampleNow1 + 30 * 86400 * 1000000000 < Timestamp exampleFutureResult \<and>
   (\<exists>c'. updateStatus (AddDate_in NewYork2026) exampleNow
            ((exampleConfig ''8.8.8.8'' ''8.8.4.4'')
               \<lparr>Checks := [(exampleCheck ''example.org'' ''A'' ''93.184.216.34'')
                              \<lparr>History := [exampleLateResult]\<rparr>]\<rparr>)
            0 exampleErrorResult = Inr c' \<and>
          History (Checks c' ! nat 0) = [exampleLateResult, exampleErrorResult]) \<and>
   Timestamp exampleLateResult = exampleNow - (30 * 86400 + 1800) * 1000000000 \<and>
   AddDate_in NewYork2026 exampleNow 0 0 (- 30) = exampleNow - (30 * 86400 + 3600) * 1000000000"
proof (intro conjI)
  show "\<exists>c'. updateStatus (AddDate_in UTC) exampleNow1
            ((exampleConfig ''8.8.8.8'' ''8.8.4.4'')
               \<lparr>Checks := [exampleCheck ''example.org'' ''A'' ''93.184.216.34'']\<rparr>)
            0 exampleFutureResult = Inr c' \<and>
          History (Checks c' ! nat 0) = [exampleFutureResult]"
    by (simp add: updateStatus_def Let_def After_def example_cutoff exampleCheck_def
          exampleFutureResult_def exampleNow_def)
  show "exampleNow1 + 30 * 86400 * 1000000000 < Timestamp exampleFutureResult"
    by (simp add: exampleFutureResult_def exampleNow_def exampleNow1_def)
  show "\<exists>c'. updateStatus (AddDate_in NewYork2026) exampleNow
            ((exampleConfig ''8.8.8.8'' ''8.8.4.4'')
               \<lparr>Checks := [(exampleCheck ''example.org'' ''A'' ''93.184.216.34'')
                              \<lparr>History := [exampleLateResult]\<rparr>]\<rparr>)
            0 exampleErrorResult = Inr c' \<and>
          History (Checks c' ! nat 0) = [exampleLateResult, exampleErrorResult]"
    by (simp add: updateStatus_def Let_def After_def example_cutoff_NewYork exampleCheck_def
          exampleLateResult_def exampleErrorResult_def exampleNow_def)
  show "Timestamp exampleLateResult = exampleNow - (30 * 86400 + 1800) * 1000000000"
    by (simp add: exampleLateResult_def)
  show "AddDate_in NewYork2026 exampleNow 0 0 (- 30) =
          exampleNow - (30 * 86400 + 3600) * 1000000000"
    by (simp add: example_cutoff_NewYork exampleNow_def)
qed

text \<open>
  Claim C8. Whenever the log file can be read, loadHistoryFromLog returns without an
  error. A line with fewer than 4 tab-separated fields, or whose first field the timestamp
  parser rejects, adds nothing: the history is the one the loop builds from the lines before
  and after it, and the one it builds from the file's other lines when all such lines are
  removed.
\<close>

theorem loadHistoryFromLog_skips_bad_line:
  assumes "fs logFile = Some data"
    and "Split newline data = pre @ [bad] @ post"
    and "length (Split tab bad) < 4 \<or> Parse (Split tab bad ! 0) = None"
  shows "\<exists>check'. loadHistoryFromLog Parse AddDate now check logFile fs = Inr check' \<and>
           History check' =
             loadLines Parse (AddDate now 0 0 (- 30)) (History check) (pre @ post) \<and>
           History check' =
             loadLines Parse (AddDate now 0 0 (- 30)) (History check)
               (filter (\<lambda>l. \<not> (length (Split tab l) < 4 \<or> Parse (Split tab l ! 0) = None))
                  (Split newline data))"
proof -
  have "loadLines Parse (AddDate now 0 0 (- 30)) (History check) (pre @ [bad] @ post) =
        loadLines Parse (AddDate now 0 0 (- 30)) (History check) (pre @ post)"
    using loadLines_skip[where P = Parse and bad = bad, OF assms(3)] by (simp add: loadLines_append)
  moreover have "loadHistoryFromLog Parse AddDate now check logFile fs =
          Inr (check\<lparr>History := loadLines Parse (AddDate now 0 0 (- 30)) (History check)
                                   (Split newline data)\<rparr>)"
    using assms(1) by (simp add: loadHistoryFromLog_def ReadFile_def Let_def)
  ultimately show ?thesis
    using assms(2) loadLines_filter[of Parse "AddDate now 0 0 (- 30)" "History check" "Split newline data"]
    by simp
qed

theorem loadHistoryFromLog_skips_bad_line_witness:
  "exampleFiles ''logs/example.org-A.log'' = Some exampleLog \<and>
   length (Split tab ''not a log line'') < 4 \<and>
   (\<exists>check'. loadHistoryFromLog Parse_RFC3339_ref (AddDate_in UTC) exampleNow
                (exampleCheck ''example.org'' ''A'' ''93.184.216.34'')
                ''logs/example.org-A.log'' exampleFiles = Inr check' \<and>
              History check' =
                [\<lparr>CheckResult.Status = ''example.org-A-ERROR-lookup example.org: no such host'',
                  Timestamp = 1793615100000000000, ActualResult = [[]], Server = ''8.8.4.4''\<rparr>])"
proof -
  let ?pre = "[''2026-09-01T08:00:00Z'' @ [tab] @ ''example.org-A-PASS'' @ [tab] @ ''8.8.8.8'' @ [tab] @
        ''93.184.216.34'']"
  let ?post = "[''yesterday'' @ [tab] @ ''example.org-A-PASS'' @ [tab] @ ''8.8.8.8'' @ [tab] @
        ''93.184.216.34'',
      ''2026-11-02T10:25:00Z'' @ [tab] @ ''example.org-A-ERROR-lookup example.org: no such host'' @
        [tab] @ ''8.8.4.4'' @ [tab],
      []]"
  have f: "exampleFiles ''logs/example.org-A.log'' = Some exampleLog"
    by (simp add: exampleFiles_def)
  have l: "Split newline exampleLog = ?pre @ [''not a log line''] @ ?post"
    by (simp add: exampleLog_lines)
  have b: "length (Split tab ''not a log line'') < 4 \<or>
           Parse_RFC3339_ref (Split tab ''not a log line'' ! 0) = None"
    by simp
  have r: "loadLines Parse_RFC3339_ref (AddDate_in UTC exampleNow 0 0 (- 30))
             (History (exampleCheck ''example.org'' ''A'' ''93.184.216.34'')) (?pre @ ?post) =
           [\<lparr>CheckResult.Status = ''example.org-A-ERROR-lookup example.org: no such host'',
             Timestamp = 1793615100000000000, ActualResult = [[]], Server = ''8.8.4.4''\<rparr>]"
    by (simp add: exampleCheck_def Let_def example_parse After_def example_cutoff exampleNow_def)
  from loadHistoryFromLog_skips_bad_line[where Parse = Parse_RFC3339_ref
         and bad = "''not a log line''" and now = exampleNow and AddDate = "AddDate_in UTC"
         and check = "exampleCheck ''example.org'' ''A'' ''93.184.216.34''"
         and fs = exampleFiles and logFile = "''logs/example.org-A.log''" and data = exampleLog
         and pre = ?pre and post = ?post, OF f l b]
  have ex: "\<exists>check'. loadHistoryFromLog Parse_RFC3339_ref (AddDate_in UTC) exampleNow
                (exampleCheck ''example.org'' ''A'' ''93.184.216.34'')
                ''logs/example.org-A.log'' exampleFiles = Inr check' \<and>
              History check' =
                [\<lparr>CheckResult.Status = ''example.org-A-ERROR-lookup example.org: no such host'',
                  Timestamp = 1793615100000000000, ActualResult = [[]], Server = ''8.8.4.4''\<rparr>]"
    unfolding r by blast
  have len: "length (Split tab ''not a log line'') < 4" by simp
  show ?thesis using f len ex by (intro conjI)
qed

section \<open>Writing a result and reading it back\<close>

lemma saveCheckToLog_written:
  assumes "History check \<noteq> []"
  shows "saveCheckToLog Format filepath_Join NoFault check logDir fs =
           (EntryWritten,
            fs(filepath_Join logDir (Domain check @ ''-'' @ Type check @ ''.log'') \<mapsto>
                 (case fs (filepath_Join logDir (Domain check @ ''-'' @ Type check @ ''.log'')) of
                    None \<Rightarrow> [] | Some data \<Rightarrow> data) @
                 logEntry Format (last (History check))))"
  using assms
  by (auto simp: saveCheckToLog_def Let_def OpenFile_append_create_def WriteString_def
        last_conv_nth split: option.splits)

lemma loadLines_logEntry:
  assumes clean: "\<forall>s\<in>{Format (Timestamp r), CheckResult.Status r, Server r} \<union> set (ActualResult r).
                    tab \<notin> set s \<and> newline \<notin> set s"
    and parse: "P (Format (Timestamp r)) = Some t'"
  shows "loadLines P cutoff h (Split newline (logEntry Format r)) =
           (if After t' cutoff
            then h @ [\<lparr>CheckResult.Status = CheckResult.Status r, Timestamp = t',
                       ActualResult = Split comma (Join (ActualResult r) comma),
                       Server = Server r\<rparr>]
            else h)"
proof -
  let ?joined = "Join (ActualResult r) comma"
  let ?line = "Format (Timestamp r) @ [tab] @ CheckResult.Status r @ [tab] @ Server r @ [tab] @ ?joined"
  have jt: "tab \<notin> set ?joined" and jn: "newline \<notin> set ?joined"
    using clean Join_no_char[of "ActualResult r" tab comma]
      Join_no_char[of "ActualResult r" newline comma] by auto
  have fields: "Split tab ?line =
                  [Format (Timestamp r), CheckResult.Status r, Server r, ?joined]"
    using clean jt by (intro Split_logEntry_fields) auto
  have "newline \<notin> set ?line"
    using clean jn by auto
  then have lines: "Split newline (?line @ [newline]) = [?line, []]"
    by (rule Split_logEntry_lines)
  have ne: "?line \<noteq> []" by simp
  have "loadLines P cutoff h [?line, []] =
          (if After t' cutoff
            then h @ [\<lparr>CheckResult.Status = CheckResult.Status r, Timestamp = t',
                       ActualResult = Split comma ?joined, Server = Server r\<rparr>]
            else h)"
    unfolding loadLines.simps fields Let_def using ne parse by simp
  moreover have "logEntry Format r = ?line @ [newline]"
    by (simp add: logEntry_def)
  ultimately show ?thesis using lines by simp
qed

lemma save_then_load:
  assumes hist: "History check \<noteq> []"
    and logfile: "fs (filepath_Join logDir (Domain check @ ''-'' @ Type check @ ''.log'')) = old"
              "old = None \<or> (\<exists>data. old = Some data \<and> (data = [] \<or> last data = newline))"
    and clean: "\<forall>s\<in>{Format (Timestamp (last (History check))),
                       CheckResult.Status (last (History check)), Server (last (History check))} \<union>
                      set (ActualResult (last (History check))).
                    tab \<notin> set s \<and> newline \<notin> set s"
    and parse: "P (Format (Timestamp (last (History check)))) = Some t'"
    and window: "After t' (AddDate now 0 0 (- 30))"
  shows "loadHistoryFromLog P AddDate now fresh
           (filepath_Join logDir (Domain check @ ''-'' @ Type check @ ''.log''))
           (snd (saveCheckToLog Format filepath_Join NoFault check logDir fs)) =
         Inr (fresh\<lparr>History :=
                loadLines P (AddDate now 0 0 (- 30)) (History fresh)
                  (Split newline (case old of None \<Rightarrow> [] | Some data \<Rightarrow> data)) @
                [\<lparr>CheckResult.Status = CheckResult.Status (last (History check)), Timestamp = t',
                  ActualResult = Split comma (Join (ActualResult (last (History check))) comma),
                  Server = Server (last (History check))\<rparr>]\<rparr>)"
proof -
  let ?data = "case old of None \<Rightarrow> [] | Some data \<Rightarrow> data"
  have complete: "?data = [] \<or> last ?data = newline"
    using logfile(2) by auto
  show ?thesis
    unfolding saveCheckToLog_written[OF hist] logfile(1)
    by (simp add: loadHistoryFromLog_def ReadFile_def Let_def
          loadLines_Split_append[OF complete] loadLines_logEntry[where Format = Format and r = "last (History check)" and P = P
            and t' = t', OF clean parse]
          window)
qed





text \<open>
  Claim C10. Every entry that loadHistoryFromLog appends to a history has at least one
  record, since splitting the fourth field on commas never gives the empty list; so has
  every entry of a check rehydrated in loadConfig. A result with an empty record list that
  saveCheckToLog has written (its timestamp, status and server free of tabs and newlines) is
  loaded back with the record list that holds exactly one empty string.
\<close>

theorem rehydrated_records_nonempty:
  "(loadHistoryFromLog Parse AddDate now check logFile fs = Inr check' \<longrightarrow>
      (\<exists>new. History check' = History check @ new \<and> (\<forall>e\<in>set new. ActualResult e \<noteq> []))) \<and>
   (\<forall>e\<in>set (History (loadConfig_check Parse filepath_Join AddDate now global check fs)).
      ActualResult e \<noteq> []) \<and>
   (History saved \<noteq> [] \<and> ActualResult (last (History saved)) = [] \<and>
    (\<forall>s\<in>{Format (Timestamp (last (History saved))), CheckResult.Status (last (History saved)),
          Server (last (History saved))}. tab \<notin> set s \<and> newline \<notin> set s) \<and>
    (fs0 (filepath_Join logDir (Domain saved @ ''-'' @ Type saved @ ''.log'')) = None \<or>
     (\<exists>data. fs0 (filepath_Join logDir (Domain saved @ ''-'' @ Type saved @ ''.log'')) = Some data \<and>
             (data = [] \<or> last data = newline))) \<and>
    Parse (Format (Timestamp (last (History saved)))) = Some t' \<and>
    After t' (AddDate now 0 0 (- 30)) \<longrightarrow>
    (\<exists>loaded. loadHistoryFromLog Parse AddDate now fresh
                 (filepath_Join logDir (Domain saved @ ''-'' @ Type saved @ ''.log''))
                 (snd (saveCheckToLog Format filepath_Join NoFault saved logDir fs0)) = Inr loaded \<and>
               History loaded \<noteq> [] \<and>
               last (History loaded) =
                 \<lparr>CheckResult.Status = CheckResult.Status (last (History saved)), Timestamp = t',
                  ActualResult = [[]], Server = Server (last (History saved))\<rparr>))"
proof (intro conjI impI)
  assume "loadHistoryFromLog Parse AddDate now check logFile fs = Inr check'"
  from loadHistoryFromLog_window[OF this]
  show "\<exists>new. History check' = History check @ new \<and> (\<forall>e\<in>set new. ActualResult e \<noteq> [])"
    by blast
next
  show "\<forall>e\<in>set (History (loadConfig_check Parse filepath_Join AddDate now global check fs)).
          ActualResult e \<noteq> []"
    using loadConfig_check_window[of Parse filepath_Join AddDate now global check fs] by blast
next
  let ?r = "last (History saved)"
  let ?file = "filepath_Join logDir (Domain saved @ ''-'' @ Type saved @ ''.log'')"
  assume a: "History saved \<noteq> [] \<and> ActualResult ?r = [] \<and>
    (\<forall>s\<in>{Format (Timestamp ?r), CheckResult.Status ?r, Server ?r}.
        tab \<notin> set s \<and> newline \<notin> set s) \<and>
    (fs0 ?file = None \<or>
     (\<exists>data. fs0 ?file = Some data \<and> (data = [] \<or> last data = newline))) \<and>
    Parse (Format (Timestamp ?r)) = Some t' \<and>
    After t' (AddDate now 0 0 (- 30))"
  then have h: "History saved \<noteq> []" and e: "ActualResult ?r = []"
    and complete: "fs0 ?file = None \<or>
                   (\<exists>data. fs0 ?file = Some data \<and> (data = [] \<or> last data = newline))"
    and parse: "Parse (Format (Timestamp ?r)) = Some t'"
    and window: "After t' (AddDate now 0 0 (- 30))"
    by blast+
  have clean: "\<forall>s\<in>{Format (Timestamp ?r), CheckResult.Status ?r, Server ?r} \<union> set (ActualResult ?r).
                 tab \<notin> set s \<and> newline \<notin> set s"
    using a by (simp add: e)
  have "Split comma (Join (ActualResult ?r) comma) = [[]]"
    by (simp add: e)
  with save_then_load[where check = saved and fs = fs0 and filepath_Join = filepath_Join
        and logDir = logDir and old = "fs0 ?file" and Format = Format and P = Parse
        and t' = t' and now = now and AddDate = AddDate
        and fresh = fresh, OF h refl complete clean parse window]
  show "\<exists>loaded. loadHistoryFromLog Parse AddDate now fresh ?file
                 (snd (saveCheckToLog Format filepath_Join NoFault saved logDir fs0)) = Inr loaded \<and>
               History loaded \<noteq> [] \<and>
               last (History loaded) =
                 \<lparr>CheckResult.Status = CheckResult.Status ?r, Timestamp = t',
                  ActualResult = [[]], Server = Server ?r\<rparr>"
    by simp
qed

theorem rehydrated_records_nonempty_witness:
  "History ((exampleCheck ''example.org'' ''A'' ''93.184.216.34'')\<lparr>History := [exampleErrorResult]\<rparr>) \<noteq> [] \<and>
   ActualResult (last (History ((exampleCheck ''example.org'' ''A'' ''93.184.216.34'')
                                  \<lparr>History := [exampleErrorResult]\<rparr>))) = [] \<and>
   Parse_RFC3339_ref (Format_RFC3339_UTC (Timestamp exampleErrorResult)) = Some 1793615400000000000 \<and>
   After 1793615400000000000 (AddDate_in UTC exampleNow2 0 0 (- 30)) \<and>
   (\<exists>loaded. loadHistoryFromLog Parse_RFC3339_ref (AddDate_in UTC) exampleNow2
                (exampleCheck ''example.org'' ''A'' ''93.184.216.34'')
                (filepath_Join_clean ''logs'' ''example.org-A.log'')
                (snd (saveCheckToLog Format_RFC3339_UTC filepath_Join_clean NoFault
                        ((exampleCheck ''example.org'' ''A'' ''93.184.216.34'')
                           \<lparr>History := [exampleErrorResult]\<rparr>) ''logs'' exampleFiles)) = Inr loaded \<and>
              last (History loaded) =
                \<lparr>CheckResult.Status = ''example.org-A-ERROR-lookup example.org: no such host'',
                 Timestamp = 1793615400000000000, ActualResult = [[]], Server = ''8.8.4.4''\<rparr>)"
proof -
  let ?saved = "(exampleCheck ''example.org'' ''A'' ''93.184.216.34'')\<lparr>History := [exampleErrorResult]\<rparr>"
  have l: "last (History ?saved) = exampleErrorResult" by simp
  have h: "History ?saved \<noteq> []" by simp
  have e: "ActualResult (last (History ?saved)) = []"
    by (simp add: exampleErrorResult_def)
  have ts: "Timestamp exampleErrorResult = exampleNow"
    by (simp add: exampleErrorResult_def)
  have clean: "\<forall>s\<in>{Format_RFC3339_UTC (Timestamp (last (History ?saved))),
                     CheckResult.Status (last (History ?saved)), Server (last (History ?saved))}.
                 tab \<notin> set s \<and> newline \<notin> set s"
    unfolding l by (simp add: ts example_format) (simp add: exampleErrorResult_def)
  have name: "filepath_Join_clean ''logs'' (Domain ?saved @ ''-'' @ Type ?saved @ ''.log'') =
              ''logs/example.org-A.log''"
    by (simp add: exampleCheck_def filepath_Join_clean_def)
  have complete: "exampleFiles (filepath_Join_clean ''logs'' (Domain ?saved @ ''-'' @ Type ?saved @ ''.log'')) = None \<or>
     (\<exists>data. exampleFiles (filepath_Join_clean ''logs'' (Domain ?saved @ ''-'' @ Type ?saved @ ''.log'')) = Some data \<and>
             (data = [] \<or> last data = newline))"
    unfolding name by (simp add: exampleFiles_def exampleLog_def)
  have parse: "Parse_RFC3339_ref (Format_RFC3339_UTC (Timestamp (last (History ?saved)))) =
                 Some 1793615400000000000"
    unfolding l by (simp add: ts example_format example_parse_now)
  have window: "After 1793615400000000000 (AddDate_in UTC exampleNow2 0 0 (- 30))"
    by (simp add: After_def example_cutoff exampleNow2_def)
  have st: "CheckResult.Status exampleErrorResult = ''example.org-A-ERROR-lookup example.org: no such host''"
    "Server exampleErrorResult = ''8.8.4.4''"
    by (simp_all add: exampleErrorResult_def)
  from rehydrated_records_nonempty[where saved = ?saved and Format = Format_RFC3339_UTC
         and Parse = Parse_RFC3339_ref and filepath_Join = filepath_Join_clean
         and logDir = "''logs''" and ?fs0.0 = exampleFiles and t' = 1793615400000000000
         and now = exampleNow2 and fresh = "exampleCheck ''example.org'' ''A'' ''93.184.216.34''"
         and AddDate = "AddDate_in UTC"]
    h e clean complete parse window
  have "\<exists>loaded. loadHistoryFromLog Parse_RFC3339_ref (AddDate_in UTC) exampleNow2
                (exampleCheck ''example.org'' ''A'' ''93.184.216.34'')
                (filepath_Join_clean ''logs'' (Domain ?saved @ ''-'' @ Type ?saved @ ''.log''))
                (snd (saveCheckToLog Format_RFC3339_UTC filepath_Join_clean NoFault
                        ?saved ''logs'' exampleFiles)) = Inr loaded \<and>
              last (History loaded) =
                \<lparr>CheckResult.Status = CheckResult.Status (last (History ?saved)),
                 Timestamp = 1793615400000000000, ActualResult = [[]],
                 Server = Server (last (History ?saved))\<rparr>"
    by blast
  then have "\<exists>loaded. loadHistoryFromLog Parse_RFC3339_ref (AddDate_in UTC) exampleNow2
                (exampleCheck ''example.org'' ''A'' ''93.184.216.34'')
                (filepath_Join_clean ''logs'' ''example.org-A.log'')
                (snd (saveCheckToLog Format_RFC3339_UTC filepath_Join_clean NoFault
                        ?saved ''logs'' exampleFiles)) = Inr loaded \<and>
              last (History loaded) =
                \<lparr>CheckResult.Status = ''example.org-A-ERROR-lookup example.org: no such host'',
                 Timestamp = 1793615400000000000, ActualResult = [[]], Server = ''8.8.4.4''\<rparr>"
    unfolding l st by (simp add: exampleCheck_def)
  moreover have "Parse_RFC3339_ref (Format_RFC3339_UTC (Timestamp exampleErrorResult)) =
                   Some 1793615400000000000"
    using parse unfolding l .
  ultimately show ?thesis
    using h e window by (intro conjI)
qed

end
